theory Spec2Isabelle
  imports Complex_Main
begin

section \<open>Match lifecycle resolver (Upcoming.jsx: useCountdown, pad)\<close>

text \<open>
  Instants are JavaScript time values: whole milliseconds since the epoch, modelled as
  \<open>int\<close>. \<open>startDate - now\<close> coerces both \<open>Date\<close> objects to their time values.
  An invalid \<open>Date\<close> is not an instant and is outside this model. A declared status is
  the string the match object carries; the resolver compares it with \<open>===\<close>.
\<close>

record countdown =
  diffMs :: int
  countdownLabel :: string
  state :: string

text \<open>\<open>n.toString()\<close> for an integer \<open>n\<close>: its decimal digits, with a sign when negative.\<close>

definition digit_char :: "nat \<Rightarrow> char" where
  "digit_char d = ''0123456789'' ! d"

fun digits :: "nat \<Rightarrow> string" where
  "digits n = (if n < 10 then [digit_char n] else digits (n div 10) @ [digit_char (n mod 10)])"

declare digits.simps [simp del]

definition toString :: "int \<Rightarrow> string" where
  "toString n = (if n < 0 then CHR ''-'' # digits (nat (- n)) else digits (nat n))"

text \<open>\<open>s.padStart(k, "0")\<close>: zeros are put in front until the length is at least \<open>k\<close>.\<close>

definition padStart :: "nat \<Rightarrow> char \<Rightarrow> string \<Rightarrow> string" where
  "padStart k c s = replicate (k - length s) c @ s"

definition pad :: "int \<Rightarrow> string" where
  "pad n = padStart 2 (CHR ''0'') (toString n)"

text \<open>
  \<open>Math.floor(abs / k)\<close> is \<open>abs div k\<close> (\<open>abs\<close> is an integer that is not negative),
  and \<open>%\<close> on such values is \<open>mod\<close>.
\<close>

definition useCountdown :: "int \<Rightarrow> string \<Rightarrow> int \<Rightarrow> countdown" where
  "useCountdown startDate status now =
     (let diffMs = startDate - now;
          abs = max diffMs 0
      in if status = ''completed'' then
           \<lparr>diffMs = diffMs, countdownLabel = ''Ended'', state = ''completed''\<rparr>
         else if status = ''live'' then
           \<lparr>diffMs = diffMs, countdownLabel = ''In Progress'', state = ''live''\<rparr>
         else if diffMs \<le> 0 then
           \<lparr>diffMs = diffMs, countdownLabel = ''Starting'', state = ''live''\<rparr>
         else
           (let state = (if diffMs \<le> 10 * 60 * 1000 then ''soon'' else ''scheduled'');
                seconds = (abs div 1000) mod 60;
                minutes = (abs div (60 * 1000)) mod 60;
                hours = abs div (60 * 60 * 1000);
                countdownLabel =
                  (if hours > 0 then pad hours @ '':'' @ pad minutes @ '':'' @ pad seconds
                   else pad minutes @ '':'' @ pad seconds)
            in \<lparr>diffMs = diffMs, countdownLabel = countdownLabel, state = state\<rparr>))"

text \<open>
  MatchCard destructures the match with \<open>status = "scheduled"\<close> as the default, so an
  absent status reaches the resolver as \<open>"scheduled"\<close>. The start instant is what
  \<open>new Date(y, m - 1, d, h, min, 0)\<close> makes of the match's date and time in the local
  zone; it is taken as given.
\<close>

definition MatchCard_countdown :: "int \<Rightarrow> string option \<Rightarrow> int \<Rightarrow> countdown" where
  "MatchCard_countdown startDate status_field now =
     useCountdown startDate (case status_field of None \<Rightarrow> ''scheduled'' | Some s \<Rightarrow> s) now"

subsection \<open>The resolver as the specification words it\<close>

text \<open>
  The derived-state table of the specification, read literally: every time-based row asks
  for a declared status of \<open>scheduled\<close>.
\<close>

definition derivedState_spec :: "string \<Rightarrow> int \<Rightarrow> int \<Rightarrow> string" where
  "derivedState_spec declaredStatus startInstant now =
     (if declaredStatus = ''completed'' then ''completed''
      else if declaredStatus = ''live'' \<or> (declaredStatus = ''scheduled'' \<and> now \<ge> startInstant)
        then ''live''
      else if declaredStatus = ''scheduled'' \<and> 0 < startInstant - now
              \<and> startInstant - now \<le> 10 * 60 * 1000
        then ''soon''
      else ''scheduled'')"

text \<open>A field that is two-digit zero-padded: one leading zero in front of a single digit.\<close>

definition two_digits :: "int \<Rightarrow> string" where
  "two_digits n = (if n < 10 then CHR ''0'' # toString n else toString n)"

text \<open>
  The duration string of the specification: the remaining milliseconds floored to whole
  seconds, seconds and minutes modulo 60, hours by whole-hour floor division, and the
  hour field present from one hour on.
\<close>

definition duration_spec :: "int \<Rightarrow> string" where
  "duration_spec remaining =
     (let whole_seconds = remaining div 1000;
          ss = whole_seconds mod 60;
          mm = (whole_seconds div 60) mod 60;
          hh = whole_seconds div 3600
      in if remaining \<ge> 60 * 60 * 1000
         then two_digits hh @ '':'' @ two_digits mm @ '':'' @ two_digits ss
         else two_digits mm @ '':'' @ two_digits ss)"

text \<open>
  The countdown label of the specification, read literally: \<open>Starting\<close> only for a match
  declared \<open>scheduled\<close> whose start has passed, and otherwise the duration string of the
  absolute remaining milliseconds.
\<close>

definition countdownLabel_spec :: "string \<Rightarrow> int \<Rightarrow> int \<Rightarrow> string" where
  "countdownLabel_spec declaredStatus startInstant now =
     (if declaredStatus = ''completed'' then ''Ended''
      else if declaredStatus = ''live'' then ''In Progress''
      else if declaredStatus = ''scheduled'' \<and> now \<ge> startInstant then ''Starting''
      else duration_spec \<bar>startInstant - now\<bar>)"

section \<open>Numbers that may be NaN (Upcoming.jsx: MatchCard, useCountdown, ProgressBar)\<close>

text \<open>
  MatchCard builds the start date from the strings of the match, and a malformed string
  gives an Invalid Date, whose time value is \<open>NaN\<close>. A JavaScript number is therefore a
  real or \<open>NaN\<close>; infinities do not arise, as every divisor below is a constant other
  than zero. Arithmetic, \<open>Math.max\<close>, \<open>Math.min\<close> and \<open>Math.floor\<close> give \<open>NaN\<close> as
  soon as an operand is \<open>NaN\<close>, and every comparison with \<open>NaN\<close> is false.
\<close>

datatype number = NaN | Num real

definition number_sub :: "number \<Rightarrow> number \<Rightarrow> number" where
  "number_sub a b =
     (case a of NaN \<Rightarrow> NaN | Num x \<Rightarrow> (case b of NaN \<Rightarrow> NaN | Num y \<Rightarrow> Num (x - y)))"

definition number_mul :: "number \<Rightarrow> number \<Rightarrow> number" where
  "number_mul a b =
     (case a of NaN \<Rightarrow> NaN | Num x \<Rightarrow> (case b of NaN \<Rightarrow> NaN | Num y \<Rightarrow> Num (x * y)))"

text \<open>Division by a constant \<open>k\<close> other than zero.\<close>

definition number_div :: "number \<Rightarrow> real \<Rightarrow> number" where
  "number_div a k = (case a of NaN \<Rightarrow> NaN | Num x \<Rightarrow> Num (x / k))"

text \<open>\<open>a % k\<close> for a whole number \<open>a\<close> that is not negative.\<close>

definition number_mod :: "number \<Rightarrow> int \<Rightarrow> number" where
  "number_mod a k = (case a of NaN \<Rightarrow> NaN | Num x \<Rightarrow> Num (of_int (\<lfloor>x\<rfloor> mod k)))"

definition number_le :: "number \<Rightarrow> number \<Rightarrow> bool" where
  "number_le a b =
     (case a of NaN \<Rightarrow> False | Num x \<Rightarrow> (case b of NaN \<Rightarrow> False | Num y \<Rightarrow> x \<le> y))"

definition number_gt :: "number \<Rightarrow> number \<Rightarrow> bool" where
  "number_gt a b =
     (case a of NaN \<Rightarrow> False | Num x \<Rightarrow> (case b of NaN \<Rightarrow> False | Num y \<Rightarrow> x > y))"

definition Math_max :: "number \<Rightarrow> number \<Rightarrow> number" where
  "Math_max a b =
     (case a of NaN \<Rightarrow> NaN | Num x \<Rightarrow> (case b of NaN \<Rightarrow> NaN | Num y \<Rightarrow> Num (max x y)))"

definition Math_min :: "number \<Rightarrow> number \<Rightarrow> number" where
  "Math_min a b =
     (case a of NaN \<Rightarrow> NaN | Num x \<Rightarrow> (case b of NaN \<Rightarrow> NaN | Num y \<Rightarrow> Num (min x y)))"

definition Math_floor :: "number \<Rightarrow> number" where
  "Math_floor a = (case a of NaN \<Rightarrow> NaN | Num x \<Rightarrow> Num (of_int \<lfloor>x\<rfloor>))"

text \<open>\<open>n.toString()\<close> for a whole number or \<open>NaN\<close>, and \<open>pad\<close> on such a value.\<close>

definition number_toString :: "number \<Rightarrow> string" where
  "number_toString a = (case a of NaN \<Rightarrow> ''NaN'' | Num x \<Rightarrow> toString \<lfloor>x\<rfloor>)"

definition pad_number :: "number \<Rightarrow> string" where
  "pad_number n = padStart 2 (CHR ''0'') (number_toString n)"

subsection \<open>The resolver on numbers\<close>

text \<open>
  The lines of \<open>useCountdown\<close> once more, now on the time values of a start date that
  may be invalid. On instants it is the resolver above (lemma
  \<open>useCountdown_number_instant\<close>).
\<close>

record countdown_number =
  diffMs_number :: number
  countdownLabel_number :: string
  state_number :: string

definition useCountdown_number :: "number \<Rightarrow> string \<Rightarrow> number \<Rightarrow> countdown_number" where
  "useCountdown_number startDate status_arg now =
     (let diffMs = number_sub startDate now;
          abs = Math_max diffMs (Num 0)
      in if status_arg = ''completed'' then
           \<lparr>diffMs_number = diffMs, countdownLabel_number = ''Ended'',
            state_number = ''completed''\<rparr>
         else if status_arg = ''live'' then
           \<lparr>diffMs_number = diffMs, countdownLabel_number = ''In Progress'',
            state_number = ''live''\<rparr>
         else if number_le diffMs (Num 0) then
           \<lparr>diffMs_number = diffMs, countdownLabel_number = ''Starting'',
            state_number = ''live''\<rparr>
         else
           (let st = (if number_le diffMs (Num (10 * 60 * 1000)) then ''soon'' else ''scheduled'');
                seconds = number_mod (Math_floor (number_div abs 1000)) 60;
                minutes = number_mod (Math_floor (number_div abs (60 * 1000))) 60;
                hours = Math_floor (number_div abs (60 * 60 * 1000));
                label =
                  (if number_gt hours (Num 0)
                   then pad_number hours @ '':'' @ pad_number minutes @ '':'' @ pad_number seconds
                   else pad_number minutes @ '':'' @ pad_number seconds)
            in \<lparr>diffMs_number = diffMs, countdownLabel_number = label, state_number = st\<rparr>))"

subsection \<open>Progress indicator (ProgressBar, and its call in MatchCard)\<close>

text \<open>
  The function returns the number that the component writes into the \<open>width\<close> style, in
  percent; for \<open>NaN\<close> the style reads \<open>NaN%\<close>. \<open>totalMs\<close> is the window, a constant
  other than zero at the only call.
\<close>

definition ProgressBar :: "real \<Rightarrow> number \<Rightarrow> string \<Rightarrow> number" where
  "ProgressBar totalMs remainingMs st =
     (let pct = (if st = ''live'' \<or> st = ''completed'' then Num 100
                 else number_sub (Num 100) (number_mul (number_div remainingMs totalMs) (Num 100)))
      in Math_min (Math_max pct (Num 3)) (Num 100))"

text \<open>
  MatchCard resolves the countdown from its start date, the status of the match
  (\<open>scheduled\<close> when absent) and the clock, and renders the bar unless the derived state
  is \<open>completed\<close>, with a window of two hours and the remaining time capped at the window.
\<close>

definition MatchCard_progress :: "number \<Rightarrow> string option \<Rightarrow> number \<Rightarrow> number option" where
  "MatchCard_progress startDate status_field now =
     (let c = useCountdown_number startDate
                (case status_field of None \<Rightarrow> ''scheduled'' | Some s \<Rightarrow> s) now
      in if state_number c \<noteq> ''completed''
         then Some (ProgressBar (2 * 60 * 60 * 1000)
                      (Math_min (diffMs_number c) (Num (2 * 60 * 60 * 1000))) (state_number c))
         else None)"

text \<open>A percentage in \<open>[3, 100]\<close>, as the specification asks of the rendered value.\<close>

definition percent_in_range :: "number \<Rightarrow> bool" where
  "percent_in_range w = (case w of NaN \<Rightarrow> False | Num x \<Rightarrow> 3 \<le> x \<and> x \<le> 100)"

section \<open>JavaScript values\<close>

text \<open>
  The values that \<open>JSON.parse\<close> produces. \<open>JNull\<close> is \<open>null\<close>; \<open>undefined\<close> is the
  \<open>None\<close> of a property read.
\<close>

datatype json =
  JNull | JBool bool | JNum real | JStr string | JArr "json list" | JObj "(string \<times> json) list"

datatype js_error = TypeError | SyntaxError | NetworkError | Error string

text \<open>
  \<open>v.k\<close> for a data property \<open>k\<close> (not a built-in member such as \<open>length\<close>): reading
  from \<open>null\<close> throws a TypeError, an object gives the property or \<open>undefined\<close>, every
  other value gives \<open>undefined\<close>.
\<close>

definition get_prop :: "json \<Rightarrow> string \<Rightarrow> js_error + json option" where
  "get_prop v k = (case v of JNull \<Rightarrow> Inl TypeError | JObj kvs \<Rightarrow> Inr (map_of kvs k) | _ \<Rightarrow> Inr None)"

text \<open>\<open>v?.k\<close>: as \<open>v.k\<close>, but \<open>undefined\<close> when \<open>v\<close> is \<open>null\<close>.\<close>

definition optional_prop :: "json \<Rightarrow> string \<Rightarrow> json option" where
  "optional_prop v k = (case v of JObj kvs \<Rightarrow> map_of kvs k | _ \<Rightarrow> None)"

section \<open>REST client (service/api.js: request)\<close>

text \<open>
  What \<open>request\<close> reads of the \<open>Response\<close> that \<open>fetch\<close> resolves to: the status, the
  status text, the body text that \<open>res.text()\<close> yields, and what \<open>res.json()\<close> yields
  (\<open>None\<close> when the body is not JSON and the promise rejects with a SyntaxError).
\<close>

record response =
  res_status :: nat
  res_statusText :: string
  res_text :: string
  res_json :: "json option"

definition ok :: "response \<Rightarrow> bool" where
  "ok res = (200 \<le> res_status res \<and> res_status res \<le> 299)"

text \<open>
  \<open>fetched\<close> is the outcome of \<open>await fetch(...)\<close>: a rejection or a response. A
  rejected promise of \<open>request\<close> is \<open>Inl\<close>, a resolved one \<open>Inr\<close>.
\<close>

definition request :: "js_error + response \<Rightarrow> js_error + json" where
  "request fetched =
     (case fetched of
        Inl e \<Rightarrow> Inl e
      | Inr res \<Rightarrow>
          if \<not> ok res then
            Inl (Error (if res_text res \<noteq> [] then res_text res else res_statusText res))
          else if res_status res = 204 then Inr JNull
          else (case res_json res of None \<Rightarrow> Inl SyntaxError | Some v \<Rightarrow> Inr v))"

section \<open>Admin route guard (routes/RequireAdmin.jsx)\<close>

datatype 'a element = Navigate string bool string | Children 'a

text \<open>
  \<open>Navigate to replace from\<close> stands for
  \<open><Navigate to=... replace state={{ from: ... }} />\<close>. The token of the session store
  is a string or \<open>null\<close>; \<open>!token\<close> holds for \<open>null\<close> and for the empty string.
\<close>

definition falsy :: "string option \<Rightarrow> bool" where
  "falsy token = (case token of None \<Rightarrow> True | Some s \<Rightarrow> s = [])"

definition RequireAdmin :: "string option \<Rightarrow> json \<Rightarrow> string \<Rightarrow> 'a \<Rightarrow> 'a element" where
  "RequireAdmin token user pathname children =
     (if falsy token \<or> optional_prop user ''role'' \<noteq> Some (JStr ''admin'')
      then Navigate ''/login'' True pathname
      else Children children)"

section \<open>Match records (header comment of Upcoming.jsx; Admin.jsx)\<close>

text \<open>
  A match as the REST collaborator delivers it: the fields that the header comment of the
  Upcoming component documents, with the optional ones as \<open>option\<close>. \<open>obj_id\<close> is the
  \<open>_id\<close> property by which the Admin page identifies a match (\<open>None\<close> when absent).
\<close>

record team =
  name :: string
  short :: string
  color :: "string option"

record match =
  obj_id :: "string option"
  date :: string
  startTime :: string
  teams :: "team list"
  venue :: "string option"
  streamUrl :: "string option"
  status :: "string option"

section \<open>Set-live reconciliation (Admin.jsx: the onDone updater of SetLiveButton)\<close>

definition setLive_onDone :: "match \<Rightarrow> match list \<Rightarrow> match list" where
  "setLive_onDone updated prev =
     map (\<lambda>x. if obj_id x = obj_id updated then updated
              else (if status x = Some ''live'' then x\<lparr>status := Some ''scheduled''\<rparr> else x)) prev"

section \<open>Day buckets and the day filter (Upcoming.jsx: days, filtered)\<close>

text \<open>
  A local calendar date as the getters of a \<open>Date\<close> show it: the full year, the month
  index from 0, the day of the month from 1.
\<close>

record Date =
  getFullYear :: int
  getMonth :: nat
  getDate :: nat

definition is_leap :: "int \<Rightarrow> bool" where
  "is_leap y = (y mod 4 = 0 \<and> (y mod 100 \<noteq> 0 \<or> y mod 400 = 0))"

definition days_in_month :: "int \<Rightarrow> nat \<Rightarrow> nat" where
  "days_in_month y m =
     (if m = 1 then (if is_leap y then 29 else 28)
      else if m = 3 \<or> m = 5 \<or> m = 8 \<or> m = 10 then 30 else 31)"

text \<open>A day number beyond the end of the month carries into the following months.\<close>

function carry_days :: "int \<Rightarrow> nat \<Rightarrow> nat \<Rightarrow> Date" where
  "carry_days y m d =
     (if d > days_in_month y m
      then (if m \<ge> 11 then carry_days (y + 1) 0 (d - days_in_month y m)
            else carry_days y (m + 1) (d - days_in_month y m))
      else \<lparr>getFullYear = y, getMonth = m, getDate = d\<rparr>)"
  by pat_completeness auto
termination
  by (relation "measure (\<lambda>(y, m, d). d)") (auto simp add: days_in_month_def)

declare carry_days.simps [simp del]

text \<open>
  \<open>new Date(year, monthIndex, day)\<close> for a day of at least 1, as the component calls it
  with \<open>now.getDate() + i\<close>: a year from 0 to 99 means 1900 + year, a month index from 12
  on carries into the year, and the day carries as above.
\<close>

definition new_Date :: "int \<Rightarrow> nat \<Rightarrow> nat \<Rightarrow> Date" where
  "new_Date year monthIndex day =
     carry_days ((if 0 \<le> year \<and> year \<le> 99 then 1900 + year else year) + int (monthIndex div 12))
       (monthIndex mod 12) day"

definition days :: "Date \<Rightarrow> Date list" where
  "days now = map (\<lambda>i. new_Date (getFullYear now) (getMonth now) (getDate now + i)) [0..<7]"

text \<open>
  \<open>parseInt(s, 10)\<close>: leading white space is skipped, one sign is read, and the longest
  run of decimal digits that follows is the value; without a digit the result is \<open>NaN\<close>,
  here \<open>None\<close>. Strings are ASCII.
\<close>

definition is_space :: "char \<Rightarrow> bool" where
  "is_space c = (of_char c \<in> {9, 10, 11, 12, 13, 32 :: nat})"

definition is_digit :: "char \<Rightarrow> bool" where
  "is_digit c = (48 \<le> (of_char c :: nat) \<and> (of_char c :: nat) \<le> 57)"

definition digit_value :: "char \<Rightarrow> int" where
  "digit_value c = int (of_char c) - 48"

definition parseInt :: "string \<Rightarrow> int option" where
  "parseInt s =
     (let s1 = dropWhile is_space s;
          sign = (if s1 \<noteq> [] \<and> hd s1 = CHR ''-'' then - 1 else 1);
          s2 = (if s1 \<noteq> [] \<and> (hd s1 = CHR ''-'' \<or> hd s1 = CHR ''+'') then tl s1 else s1);
          ds = takeWhile is_digit s2
      in if ds = [] then None else Some (sign * foldl (\<lambda>a c. 10 * a + digit_value c) 0 ds))"

text \<open>\<open>s.split(sep)\<close> for a separator of one character; the result is never empty.\<close>

fun split_on :: "char \<Rightarrow> string \<Rightarrow> string list" where
  "split_on sep [] = [[]]"
| "split_on sep (c # cs) =
     (if c = sep then [] # split_on sep cs
      else (c # hd (split_on sep cs)) # tl (split_on sep cs))"

text \<open>
  The callback of the filter. \<open>===\<close> on numbers is false whenever a side is \<open>NaN\<close>, and
  \<open>NaN - 1\<close> is \<open>NaN\<close>.
\<close>

definition on_day :: "Date \<Rightarrow> match \<Rightarrow> bool" where
  "on_day target m =
     (let targetY = getFullYear target;
          targetM = getMonth target;
          targetD = getDate target;
          dateParts = map parseInt (split_on CHR ''-'' (date m))
      in if length dateParts \<noteq> 3 then False
         else dateParts ! 0 = Some targetY
            \<and> map_option (\<lambda>n. n - 1) (dateParts ! 1) = Some (int targetM)
            \<and> dateParts ! 2 = Some (int targetD))"

text \<open>
  \<open>days[selectedDayIndex]\<close> is \<open>undefined\<close> outside the array, and reading
  \<open>getFullYear\<close> from it throws a TypeError.
\<close>

definition filtered :: "Date list \<Rightarrow> nat \<Rightarrow> match list \<Rightarrow> js_error + match list" where
  "filtered ds selectedDayIndex effectiveMatches =
     (if selectedDayIndex < length ds
      then Inr (filter (on_day (ds ! selectedDayIndex)) effectiveMatches)
      else Inl TypeError)"

text \<open>
  The date strings of the specification that parse: exactly three components between the
  separators, each of them a number.
\<close>

definition three_numeric_components :: "string \<Rightarrow> bool" where
  "three_numeric_components s =
     (let parts = map parseInt (split_on CHR ''-'' s)
      in length parts = 3 \<and> None \<notin> set parts)"

section \<open>Start date of a match card (Upcoming.jsx: MatchCard, startDate)\<close>

text \<open>
  \<open>xs[i]\<close> on an array of parsed numbers: \<open>undefined\<close> outside the array, which the
  \<open>Date\<close> constructor converts to \<open>NaN\<close> as it does a \<open>NaN\<close> element.
\<close>

definition element :: "'a option list \<Rightarrow> nat \<Rightarrow> 'a option" where
  "element xs i = (if i < length xs then xs ! i else None)"

text \<open>
  \<open>new Date(dParts[0], dParts[1] - 1, dParts[2], h, m, 0)\<close> with \<open>[h, m]\<close> and
  \<open>dParts\<close> parsed from the start time and the date of the match. With a \<open>NaN\<close>
  argument the date is invalid and its time value is \<open>NaN\<close>; otherwise the time value
  is the one that the local time zone gives the fields, the parameter \<open>local_time\<close>.
\<close>

definition MatchCard_startDate ::
  "(int \<Rightarrow> int \<Rightarrow> int \<Rightarrow> int \<Rightarrow> int \<Rightarrow> number) \<Rightarrow> match \<Rightarrow> number" where
  "MatchCard_startDate local_time mtch =
     (let hm = map parseInt (split_on CHR '':'' (startTime mtch));
          h = element hm 0;
          m = element hm 1;
          dParts = map parseInt (split_on CHR ''-'' (date mtch))
      in case (element dParts 0, map_option (\<lambda>n. n - 1) (element dParts 1), element dParts 2,
               h, m) of
           (Some y, Some mo, Some d, Some hh, Some mi) \<Rightarrow> local_time y mo d hh mi
         | _ \<Rightarrow> NaN)"

section \<open>Local-storage persistence (getMatches, saveMatches, upsertMatch, deleteMatch)\<close>

text \<open>
  The string kept under the key \<open>npl_matches_v1\<close> is modelled by what \<open>JSON.parse\<close>
  makes of it: \<open>Unparsable s\<close> is a string \<open>s\<close> that \<open>JSON.parse\<close> rejects with a
  SyntaxError (the empty string is one), \<open>Serialized v\<close> is a text that parses to the
  value \<open>v\<close>, such as \<open>JSON.stringify\<close> writes for \<open>v\<close>. The storage is the item under
  the key, \<open>None\<close> when there is none and \<open>getItem\<close> returns \<open>null\<close>. Reading and
  writing the storage itself is taken to succeed.
\<close>

datatype stored_text = Unparsable string | Serialized json

definition JSON_parse :: "stored_text \<Rightarrow> js_error + json" where
  "JSON_parse raw = (case raw of Unparsable s \<Rightarrow> Inl SyntaxError | Serialized v \<Rightarrow> Inr v)"

definition JSON_stringify :: "json \<Rightarrow> stored_text" where
  "JSON_stringify v = Serialized v"

type_synonym localStorage = "stored_text option"

text \<open>The body of the \<open>try\<close> block of \<open>getMatches\<close>, and \<open>getMatches\<close> with its \<open>catch\<close>.\<close>

definition getMatches_try :: "localStorage \<Rightarrow> js_error + json list" where
  "getMatches_try store =
     (case store of
        None \<Rightarrow> Inr []
      | Some raw \<Rightarrow>
          if raw = Unparsable [] then Inr []
          else (case JSON_parse raw of
                  Inl e \<Rightarrow> Inl e
                | Inr data \<Rightarrow> Inr (case data of JArr xs \<Rightarrow> xs | _ \<Rightarrow> [])))"

definition getMatches :: "localStorage \<Rightarrow> json list" where
  "getMatches store = (case getMatches_try store of Inl e \<Rightarrow> [] | Inr r \<Rightarrow> r)"

definition saveMatches :: "json list option \<Rightarrow> localStorage" where
  "saveMatches matches =
     Some (JSON_stringify (JArr (case matches of None \<Rightarrow> [] | Some ms \<Rightarrow> ms)))"

text \<open>
  \<open>a === b\<close> where the two sides come from different objects, as an entry read from the
  storage and the argument of the call do: primitives are compared by value, arrays and
  objects by reference, so never equal here. \<open>None\<close> is \<open>undefined\<close>.
\<close>

definition strict_equal :: "json option \<Rightarrow> json option \<Rightarrow> bool" where
  "strict_equal a b =
     (case a of
        None \<Rightarrow> b = None
      | Some JNull \<Rightarrow> b = Some JNull
      | Some (JBool x) \<Rightarrow> b = Some (JBool x)
      | Some (JNum x) \<Rightarrow> b = Some (JNum x)
      | Some (JStr x) \<Rightarrow> b = Some (JStr x)
      | Some (JArr x) \<Rightarrow> False
      | Some (JObj x) \<Rightarrow> False)"

text \<open>
  \<open>findIndex\<close> and \<open>filter\<close> of an array with a callback that may throw: the first
  exception ends the call. \<open>findIndex\<close> returns -1 when no element is found.
\<close>

fun findIndex :: "('a \<Rightarrow> js_error + bool) \<Rightarrow> 'a list \<Rightarrow> js_error + int" where
  "findIndex p [] = Inr (- 1)"
| "findIndex p (x # xs) =
     (case p x of
        Inl e \<Rightarrow> Inl e
      | Inr True \<Rightarrow> Inr 0
      | Inr False \<Rightarrow>
          (case findIndex p xs of
             Inl e \<Rightarrow> Inl e
           | Inr i \<Rightarrow> Inr (if i < 0 then - 1 else i + 1)))"

fun filter_js :: "('a \<Rightarrow> js_error + bool) \<Rightarrow> 'a list \<Rightarrow> js_error + 'a list" where
  "filter_js p [] = Inr []"
| "filter_js p (x # xs) =
     (case p x of
        Inl e \<Rightarrow> Inl e
      | Inr keep \<Rightarrow>
          (case filter_js p xs of
             Inl e \<Rightarrow> Inl e
           | Inr r \<Rightarrow> Inr (if keep then x # r else r)))"

text \<open>The callback \<open>(m) => m.id === match.id\<close>.\<close>

definition same_id :: "json \<Rightarrow> json \<Rightarrow> js_error + bool" where
  "same_id mtch m =
     (case get_prop m ''id'' of
        Inl e \<Rightarrow> Inl e
      | Inr a \<Rightarrow> (case get_prop mtch ''id'' of Inl e \<Rightarrow> Inl e | Inr b \<Rightarrow> Inr (strict_equal a b)))"

definition upsertMatch :: "json \<Rightarrow> localStorage \<Rightarrow> js_error + localStorage" where
  "upsertMatch mtch store =
     (let list = getMatches store
      in case findIndex (same_id mtch) list of
           Inl e \<Rightarrow> Inl e
         | Inr idx \<Rightarrow>
             Inr (saveMatches (Some (if idx \<ge> 0 then list[nat idx := mtch] else list @ [mtch]))))"

text \<open>The callback \<open>(m) => m.id !== id\<close>.\<close>

definition other_id :: "json option \<Rightarrow> json \<Rightarrow> js_error + bool" where
  "other_id mid m =
     (case get_prop m ''id'' of Inl e \<Rightarrow> Inl e | Inr a \<Rightarrow> Inr (\<not> strict_equal a mid))"

definition deleteMatch :: "json option \<Rightarrow> localStorage \<Rightarrow> js_error + localStorage" where
  "deleteMatch mid store =
     (case filter_js (other_id mid) (getMatches store) of
        Inl e \<Rightarrow> Inl e
      | Inr list \<Rightarrow> Inr (saveMatches (Some list)))"

text \<open>
  An identifier that is a primitive value or absent, and the test that an entry of a
  list carries a given identifier.
\<close>

definition primitive :: "json option \<Rightarrow> bool" where
  "primitive v = (case v of Some (JArr _) \<Rightarrow> False | Some (JObj _) \<Rightarrow> False | _ \<Rightarrow> True)"

definition has_id :: "json \<Rightarrow> json option \<Rightarrow> bool" where
  "has_id m mid = (case get_prop m ''id'' of Inl e \<Rightarrow> False | Inr a \<Rightarrow> strict_equal a mid)"

section \<open>Properties of the lifecycle resolver\<close>

lemma digits_length_one: "n < 10 \<Longrightarrow> length (digits n) = 1"
  by (simp add: digits.simps)

lemma digits_nonempty: "digits n \<noteq> []"
  by (subst digits.simps) simp

lemma digits_length_two: "10 \<le> n \<Longrightarrow> 2 \<le> length (digits n)"
proof -
  assume "10 \<le> n"
  then have "digits n = digits (n div 10) @ [digit_char (n mod 10)]"
    by (subst digits.simps) simp
  moreover have "1 \<le> length (digits (n div 10))"
    using digits_nonempty [of "n div 10"] by (cases "digits (n div 10)") simp_all
  ultimately show ?thesis by simp
qed

lemma pad_two_digits: "0 \<le> n \<Longrightarrow> pad n = two_digits n"
proof -
  assume n: "0 \<le> n"
  show ?thesis
  proof (cases "n < 10")
    case True
    with n have "length (digits (nat n)) = 1" by (intro digits_length_one) simp
    with n True show ?thesis
      by (simp add: pad_def padStart_def two_digits_def toString_def)
  next
    case False
    then have "2 \<le> length (digits (nat n))" by (intro digits_length_two) simp
    with n False show ?thesis
      by (simp add: pad_def padStart_def two_digits_def toString_def)
  qed
qed

lemma two_digits_length: "0 \<le> n \<Longrightarrow> n < 100 \<Longrightarrow> length (two_digits n) = 2"
proof -
  assume n: "0 \<le> n" "n < 100"
  show ?thesis
  proof (cases "n < 10")
    case True
    with n have "length (digits (nat n)) = 1" by (intro digits_length_one) simp
    with n True show ?thesis by (simp add: two_digits_def toString_def)
  next
    case False
    with n have small: "nat n div 10 < 10" and big: "\<not> nat n < 10" by simp_all
    from small have "length (digits (nat n div 10)) = 1" by (rule digits_length_one)
    moreover from big have "digits (nat n) = digits (nat n div 10) @ [digit_char (nat n mod 10)]"
      by (subst digits.simps) simp
    ultimately show ?thesis using n False by (simp add: two_digits_def toString_def)
  qed
qed

text \<open>The three fields as the code computes them, against the specification's wording.\<close>

lemma duration_code_spec:
  assumes "0 < r"
  shows "(let seconds = (r div 1000) mod 60;
              minutes = (r div (60 * 1000)) mod 60;
              hours = r div (60 * 60 * 1000)
          in if hours > 0 then pad hours @ '':'' @ pad minutes @ '':'' @ pad seconds
             else pad minutes @ '':'' @ pad seconds) = duration_spec r"
proof -
  have m: "r div (60 * 1000) = (r div 1000) div 60"
    by (simp add: zdiv_zmult2_eq [symmetric])
  have h: "r div (60 * 60 * 1000) = (r div 1000) div 3600"
    by (simp add: zdiv_zmult2_eq [symmetric])
  have hpos: "(0 < r div (60 * 60 * 1000)) = (60 * 60 * 1000 \<le> r)"
    using assms by (simp add: pos_imp_zdiv_pos_iff)
  have nn: "0 \<le> (r div 1000) mod 60" "0 \<le> ((r div 1000) div 60) mod 60"
    "0 \<le> (r div 1000) div 3600"
    using assms by (simp_all add: pos_imp_zdiv_nonneg_iff)
  show ?thesis
    unfolding Let_def duration_spec_def m h
    using nn hpos unfolding h by (simp add: pad_two_digits)
qed

lemma resolver_label_cases:
  "countdownLabel (useCountdown startInstant declaredStatus now) =
     (if declaredStatus = ''completed'' then ''Ended''
      else if declaredStatus = ''live'' then ''In Progress''
      else if now \<ge> startInstant then ''Starting''
      else duration_spec (startInstant - now))"
proof -
  have "0 < startInstant - now \<Longrightarrow> max (startInstant - now) 0 = startInstant - now" by simp
  then show ?thesis
    using duration_code_spec [of "startInstant - now"]
    by (simp add: useCountdown_def Let_def)
qed

lemma resolver_state_cases:
  "state (useCountdown startInstant declaredStatus now) =
     (if declaredStatus = ''completed'' then ''completed''
      else if declaredStatus = ''live'' \<or> now \<ge> startInstant then ''live''
      else if startInstant - now \<le> 10 * 60 * 1000 then ''soon''
      else ''scheduled'')"
  by (simp add: useCountdown_def Let_def)

text \<open>
  C1, as stated, fails: a match declared \<open>soon\<close> (a value the Admin editor's status
  selector offers) whose start instant has passed is promoted to \<open>live\<close> by the resolver,
  while the table of the specification, which promotes only matches declared
  \<open>scheduled\<close>, leaves it at \<open>scheduled\<close>.
\<close>

theorem useCountdown_state_soon_counterexample:
  "state (useCountdown 0 ''soon'' 5) = ''live'' \<and> derivedState_spec ''soon'' 0 5 = ''scheduled''"
  by (simp add: useCountdown_def derivedState_spec_def)

text \<open>
  C1 (amended): for every declared status and all instants, the derived state is
  \<open>completed\<close> if the declared status is \<open>completed\<close>; otherwise \<open>live\<close> if the declared
  status is \<open>live\<close>, or if it is any other value and \<open>now \<ge> startInstant\<close>; otherwise
  \<open>soon\<close> if \<open>0 < startInstant - now \<le> 10 minutes\<close>; otherwise \<open>scheduled\<close>. The
  declared \<open>completed\<close> and \<open>live\<close> cases are decided before any time comparison, and
  the time-based promotion applies to every declared status other than these two. On the
  three documented statuses this is the table of the specification.
\<close>

theorem useCountdown_state:
  "state (useCountdown startInstant declaredStatus now) =
     (if declaredStatus = ''completed'' then ''completed''
      else if declaredStatus = ''live'' then ''live''
      else if now \<ge> startInstant then ''live''
      else if 0 < startInstant - now \<and> startInstant - now \<le> 10 * 60 * 1000 then ''soon''
      else ''scheduled'')
   \<and> (declaredStatus \<in> {''scheduled'', ''live'', ''completed''} \<longrightarrow>
        state (useCountdown startInstant declaredStatus now) =
          derivedState_spec declaredStatus startInstant now)"
  by (auto simp add: resolver_state_cases derivedState_spec_def)

theorem useCountdown_state_witness:
  "''scheduled'' \<in> {''scheduled'', ''live'', ''completed''}
   \<and> state (useCountdown 660000 ''scheduled'' 0) = derivedState_spec ''scheduled'' 660000 0
   \<and> state (useCountdown 660000 ''scheduled'' 0) = ''scheduled''"
  using useCountdown_state [of 660000 "''scheduled''" 0]
  by (simp add: derivedState_spec_def)

text \<open>
  C2, as stated, fails at the same input: the resolver labels the match declared \<open>soon\<close>
  whose start has passed \<open>Starting\<close>, where the specification, keeping that literal for
  matches declared \<open>scheduled\<close>, gives the duration string.
\<close>

theorem useCountdown_label_soon_counterexample:
  "countdownLabel (useCountdown 0 ''soon'' 5) = ''Starting''
   \<and> countdownLabel_spec ''soon'' 0 5 = ''00:00''"
  by (simp add: useCountdown_def countdownLabel_spec_def duration_spec_def two_digits_def
      toString_def digits.simps digit_char_def)

text \<open>
  C2 (amended): for every declared status and all instants, the countdown label is
  \<open>Ended\<close> when the declared status is \<open>completed\<close>, \<open>In Progress\<close> when it is \<open>live\<close>,
  \<open>Starting\<close> when it is any other value and \<open>now \<ge> startInstant\<close>, and otherwise the
  remaining duration, \<open>HH:MM:SS\<close> from one hour on and \<open>MM:SS\<close> below, computed from
  the remaining milliseconds floored to whole seconds, with seconds and minutes modulo 60,
  hours by floor division, and every field zero-padded to two digits (the minute and
  second fields are exactly two characters, the hour field too below 100 hours).
  A remainder of 3661000 ms gives \<open>01:01:01\<close> and one of 9 minutes gives \<open>09:00\<close>. On the
  three documented statuses this is the label of the specification.
\<close>

theorem useCountdown_label:
  "countdownLabel (useCountdown startInstant declaredStatus now) =
     (if declaredStatus = ''completed'' then ''Ended''
      else if declaredStatus = ''live'' then ''In Progress''
      else if now \<ge> startInstant then ''Starting''
      else duration_spec (startInstant - now))
   \<and> (0 \<le> n \<and> n < 100 \<longrightarrow> length (two_digits n) = 2)
   \<and> length (two_digits (k mod 60)) = 2
   \<and> countdownLabel (useCountdown (now + 3661000) ''scheduled'' now) = ''01:01:01''
   \<and> countdownLabel (useCountdown (now + 9 * 60 * 1000) ''scheduled'' now) = ''09:00''
   \<and> (declaredStatus \<in> {''scheduled'', ''live'', ''completed''} \<longrightarrow>
        countdownLabel (useCountdown startInstant declaredStatus now) =
          countdownLabel_spec declaredStatus startInstant now)"
proof -
  have ex1: "duration_spec 3661000 = ''01:01:01''"
    by (simp add: duration_spec_def two_digits_def toString_def digits.simps digit_char_def)
  have ex2: "duration_spec 540000 = ''09:00''"
    by (simp add: duration_spec_def two_digits_def toString_def digits.simps digit_char_def)
  have len: "length (two_digits (k mod 60)) = 2"
    by (rule two_digits_length) simp_all
  have spec: "declaredStatus \<in> {''scheduled'', ''live'', ''completed''} \<Longrightarrow>
        countdownLabel (useCountdown startInstant declaredStatus now) =
          countdownLabel_spec declaredStatus startInstant now"
    by (auto simp add: resolver_label_cases countdownLabel_spec_def)
  show ?thesis
    using ex1 ex2 len spec by (simp add: resolver_label_cases two_digits_length)
qed

theorem useCountdown_label_witness:
  "(0::int) \<le> 7 \<and> (7::int) < 100 \<and> length (two_digits 7) = 2
   \<and> ''scheduled'' \<in> {''scheduled'', ''live'', ''completed''}
   \<and> countdownLabel (useCountdown 3661000 ''scheduled'' 0) =
       countdownLabel_spec ''scheduled'' 3661000 0
   \<and> countdownLabel (useCountdown 3661000 ''scheduled'' 0) = ''01:01:01''"
  using useCountdown_label [of 3661000 "''scheduled''" 0 7 0]
  by (simp add: countdownLabel_spec_def duration_spec_def two_digits_def toString_def
      digits.simps digit_char_def)

text \<open>
  \<open>padStart\<close> never shortens: from 100 hours on the hour field has three digits.
\<close>

lemma useCountdown_label_100_hours:
  "countdownLabel (useCountdown 360000000 ''scheduled'' 0) = ''100:00:00''"
  by (simp add: useCountdown_def pad_def padStart_def toString_def digits.simps digit_char_def)

text \<open>
  C10: every declared status other than \<open>completed\<close> and \<open>live\<close> is resolved exactly as
  \<open>scheduled\<close> is, from the time comparison alone; this covers the \<open>soon\<close> value of the
  Admin editor and, through the default of the match card, an absent status.
\<close>

theorem useCountdown_other_status:
  "(declaredStatus \<noteq> ''completed'' \<and> declaredStatus \<noteq> ''live'' \<longrightarrow>
      useCountdown startInstant declaredStatus now = useCountdown startInstant ''scheduled'' now
      \<and> state (useCountdown startInstant declaredStatus now) =
          (if startInstant \<le> now then ''live''
           else if startInstant - now \<le> 10 * 60 * 1000 then ''soon'' else ''scheduled'')
      \<and> countdownLabel (useCountdown startInstant declaredStatus now) =
          (if startInstant \<le> now then ''Starting'' else duration_spec (startInstant - now)))
   \<and> MatchCard_countdown startInstant None now = useCountdown startInstant ''scheduled'' now
   \<and> MatchCard_countdown startInstant (Some ''soon'') now =
       useCountdown startInstant ''scheduled'' now"
proof -
  have eq: "useCountdown startInstant s now = useCountdown startInstant ''scheduled'' now"
    if "s \<noteq> ''completed''" "s \<noteq> ''live''" for s
    using that by (simp add: useCountdown_def)
  show ?thesis
    using eq [of declaredStatus] eq [of "''soon''"]
    by (simp add: MatchCard_countdown_def resolver_state_cases resolver_label_cases)
qed

theorem useCountdown_other_status_witness:
  "''soon'' \<noteq> ''completed'' \<and> ''soon'' \<noteq> ''live''
   \<and> useCountdown 300000 ''soon'' 0 = useCountdown 300000 ''scheduled'' 0
   \<and> state (useCountdown 300000 ''soon'' 0) = ''soon''"
  using useCountdown_other_status [of "''soon''" 300000 0]
  by (simp add: resolver_state_cases)

section \<open>Properties of the progress indicator\<close>

lemma floor_divide_numeral: "\<lfloor>real_of_int a / numeral w\<rfloor> = a div numeral w"
  using floor_divide_of_int_eq [of a "numeral w", where ?'a = real] by simp

text \<open>On instants the resolver on numbers is the resolver on instants.\<close>

lemma useCountdown_number_instant:
  "useCountdown_number (Num (of_int s)) st (Num (of_int n)) =
     \<lparr>diffMs_number = Num (of_int (diffMs (useCountdown s st n))),
      countdownLabel_number = countdownLabel (useCountdown s st n),
      state_number = state (useCountdown s st n)\<rparr>"
proof -
  define d where "d = s - n"
  have sub: "number_sub (Num (of_int s)) (Num (of_int n)) = Num (of_int d)"
    by (simp add: number_sub_def d_def)
  have m: "max (real_of_int d) 0 = real_of_int (max d 0)"
    by simp
  show ?thesis
    unfolding useCountdown_number_def useCountdown_def sub d_def [symmetric]
    by (simp add: Let_def number_le_def number_gt_def Math_max_def Math_floor_def
        number_div_def number_mod_def pad_number_def number_toString_def pad_def m
        floor_divide_numeral del: of_int_max)
qed


text \<open>
  With an invalid start date the declared \<open>completed\<close> and \<open>live\<close> are resolved as
  ever; any other status gives the state \<open>scheduled\<close> and a label of \<open>NaN\<close> fields.
\<close>

lemma useCountdown_number_invalid:
  "useCountdown_number NaN st now =
     (if st = ''completed'' then
        \<lparr>diffMs_number = NaN, countdownLabel_number = ''Ended'', state_number = ''completed''\<rparr>
      else if st = ''live'' then
        \<lparr>diffMs_number = NaN, countdownLabel_number = ''In Progress'', state_number = ''live''\<rparr>
      else
        \<lparr>diffMs_number = NaN, countdownLabel_number = ''NaN:NaN'', state_number = ''scheduled''\<rparr>)"
  by (simp add: useCountdown_number_def Let_def number_sub_def number_le_def number_gt_def
      Math_max_def Math_floor_def number_div_def number_mod_def pad_number_def
      number_toString_def padStart_def)

text \<open>
  A start time without a colon, such as \<open>19\<close>, leaves the minutes \<open>undefined\<close>: the
  start date of the card is invalid, whatever the date and the time zone.
\<close>

lemma MatchCard_startDate_malformed:
  "startTime mtch = ''19'' \<Longrightarrow> MatchCard_startDate local_time mtch = NaN"
  by (simp add: MatchCard_startDate_def element_def Let_def split: option.splits)

lemma ProgressBar_number:
  "ProgressBar totalMs (Num r) st =
     Num (if st = ''live'' \<or> st = ''completed'' then 100
          else min (max (100 - (r / totalMs) * 100) 3) 100)"
  by (simp add: ProgressBar_def Let_def number_sub_def number_mul_def number_div_def
      Math_min_def Math_max_def)

text \<open>
  C4, as stated, fails: with a remaining time of \<open>NaN\<close>, which a card with an invalid
  start date passes, and a state that is neither \<open>live\<close> nor \<open>completed\<close>, both
  \<open>Math.max\<close> and \<open>Math.min\<close> return \<open>NaN\<close>, and the rendered value is \<open>NaN\<close>,
  outside \<open>[3, 100]\<close>.
\<close>

theorem ProgressBar_NaN_counterexample:
  "ProgressBar (2 * 60 * 60 * 1000) NaN ''scheduled'' = NaN
   \<and> \<not> percent_in_range (ProgressBar (2 * 60 * 60 * 1000) NaN ''scheduled'')
   \<and> MatchCard_progress NaN (Some ''scheduled'') (Num 1763600000000) = Some NaN"
  by (simp add: ProgressBar_def MatchCard_progress_def useCountdown_number_invalid
      percent_in_range_def Let_def number_sub_def number_mul_def number_div_def
      Math_min_def Math_max_def)

text \<open>
  C4 (amended): for every derived state and every remaining time that is a number, the
  rendered percentage lies in \<open>[3, 100]\<close>. For the states \<open>live\<close> and \<open>completed\<close> it is
  100, whatever the remaining time; otherwise it is the elapsed share of the two-hour
  window before the start, raised to 3 when below and lowered to 100 when above. A match
  card whose start date is an instant renders no bar when completed, 100 when live, and
  otherwise the elapsed share of the two-hour window with the remaining time capped at
  the window, at least 3. With three hours remaining the bar shows exactly 3.
\<close>

theorem ProgressBar_range:
  "percent_in_range (ProgressBar (2 * 60 * 60 * 1000) (Num r) st)
   \<and> (st = ''live'' \<or> st = ''completed'' \<longrightarrow>
        ProgressBar (2 * 60 * 60 * 1000) remainingMs st = Num 100)
   \<and> (st \<noteq> ''live'' \<and> st \<noteq> ''completed'' \<longrightarrow>
        ProgressBar (2 * 60 * 60 * 1000) (Num r) st =
          Num (let elapsed = 100 * ((2 * 60 * 60 * 1000 - r) / (2 * 60 * 60 * 1000))
               in if elapsed < 3 then 3 else if elapsed > 100 then 100 else elapsed))
   \<and> MatchCard_progress (Num (of_int startInstant)) status_field (Num (of_int now)) =
       (let c = MatchCard_countdown startInstant status_field now
        in if state c = ''completed'' then None
           else if state c = ''live'' then Some (Num 100)
           else Some (Num (max 3 (100 * ((2 * 60 * 60 * 1000
                   - min (of_int (startInstant - now)) (2 * 60 * 60 * 1000))
                   / (2 * 60 * 60 * 1000))))))
   \<and> (case MatchCard_progress (Num (of_int startInstant)) status_field (Num (of_int now)) of
         Some w \<Rightarrow> percent_in_range w
       | None \<Rightarrow> status_field = Some ''completed'')
   \<and> ProgressBar (2 * 60 * 60 * 1000) (Num (3 * 60 * 60 * 1000)) ''scheduled'' = Num 3
   \<and> MatchCard_progress (Num (of_int (now + 3 * 60 * 60 * 1000))) (Some ''scheduled'')
       (Num (of_int now)) = Some (Num 3)"
proof -
  have range: "percent_in_range (ProgressBar (2 * 60 * 60 * 1000) (Num x) s)" for x s
    by (simp add: ProgressBar_number percent_in_range_def)
  have forced: "st = ''live'' \<or> st = ''completed'' \<Longrightarrow>
      ProgressBar (2 * 60 * 60 * 1000) remainingMs st = Num 100"
    by (auto simp add: ProgressBar_def Math_min_def Math_max_def)
  have share: "st \<noteq> ''live'' \<and> st \<noteq> ''completed'' \<Longrightarrow>
      ProgressBar (2 * 60 * 60 * 1000) (Num r) st =
        Num (let elapsed = 100 * ((2 * 60 * 60 * 1000 - r) / (2 * 60 * 60 * 1000))
             in if elapsed < 3 then 3 else if elapsed > 100 then 100 else elapsed)"
    by (simp add: ProgressBar_number Let_def min_def max_def diff_divide_distrib)
  define c where "c = MatchCard_countdown startInstant status_field now"
  have d: "diffMs c = startInstant - now"
    by (simp add: c_def MatchCard_countdown_def useCountdown_def Let_def)
  have card_eq: "MatchCard_progress (Num (of_int startInstant)) status_field (Num (of_int now)) =
      (if state c \<noteq> ''completed''
       then Some (ProgressBar (2 * 60 * 60 * 1000)
              (Num (min (of_int (startInstant - now)) (2 * 60 * 60 * 1000))) (state c))
       else None)"
    unfolding MatchCard_progress_def useCountdown_number_instant
    by (simp add: c_def MatchCard_countdown_def d [unfolded c_def MatchCard_countdown_def]
        Math_min_def Let_def del: of_int_diff)
  have pos: "0 < startInstant - now" if "state c \<noteq> ''completed''" "state c \<noteq> ''live''"
    using that by (simp add: c_def MatchCard_countdown_def resolver_state_cases split: if_splits)
  have card: "MatchCard_progress (Num (of_int startInstant)) status_field (Num (of_int now)) =
       (if state c = ''completed'' then None
           else if state c = ''live'' then Some (Num 100)
           else Some (Num (max 3 (100 * ((2 * 60 * 60 * 1000
                   - min (of_int (startInstant - now)) (2 * 60 * 60 * 1000))
                   / (2 * 60 * 60 * 1000))))))"
  proof (cases "state c = ''completed'' \<or> state c = ''live''")
    case True
    then show ?thesis by (auto simp add: card_eq ProgressBar_number)
  next
    case False
    with pos have "0 < real_of_int (startInstant - now)" by simp
    with False show ?thesis
      by (simp add: card_eq ProgressBar_number min_def max_def diff_divide_distrib
          del: of_int_diff)
  qed
  have card_range: "(case MatchCard_progress (Num (of_int startInstant)) status_field
        (Num (of_int now)) of
         Some w \<Rightarrow> percent_in_range w
       | None \<Rightarrow> status_field = Some ''completed'')"
  proof (cases "state c = ''completed''")
    case True
    then have "status_field = Some ''completed''"
      by (cases status_field)
         (simp_all add: c_def MatchCard_countdown_def resolver_state_cases split: if_splits)
    moreover from True have "MatchCard_progress (Num (of_int startInstant)) status_field
        (Num (of_int now)) = None"
      by (simp add: card_eq)
    ultimately show ?thesis by (simp only: option.case)
  next
    case False
    then show ?thesis using range by (simp add: card_eq)
  qed
  have three: "ProgressBar (2 * 60 * 60 * 1000) (Num (3 * 60 * 60 * 1000)) ''scheduled'' = Num 3"
    by (simp add: ProgressBar_number)
  have card3: "MatchCard_progress (Num (of_int (now + 3 * 60 * 60 * 1000))) (Some ''scheduled'')
       (Num (of_int now)) = Some (Num 3)"
    unfolding MatchCard_progress_def useCountdown_number_instant
    by (simp add: useCountdown_def ProgressBar_number Math_min_def Let_def)
  from range forced share card card_range three card3 show ?thesis
    unfolding c_def Let_def by blast
qed

theorem ProgressBar_range_witness:
  "(''soon'' \<noteq> ''live'' \<and> ''soon'' \<noteq> ''completed'')
   \<and> ProgressBar (2 * 60 * 60 * 1000) (Num (5 * 60 * 1000)) ''soon'' = Num (575 / 6)
   \<and> (''live'' = ''live'' \<or> ''live'' = ''completed'')
   \<and> ProgressBar (2 * 60 * 60 * 1000) NaN ''live'' = Num 100
   \<and> MatchCard_progress (Num 300000) (Some ''soon'') (Num 0) = Some (Num (575 / 6))"
  using ProgressBar_range [where r = "5 * 60 * 1000" and st = "''soon''"
      and startInstant = 300000 and status_field = "Some ''soon''" and now = 0]
    ProgressBar_range [where remainingMs = NaN and st = "''live''"]
  by (simp add: Let_def MatchCard_countdown_def resolver_state_cases)

section \<open>Properties of the REST client\<close>

text \<open>
  C6: for every HTTP response, a status of 204 resolves the request with \<open>null\<close>; a
  status outside 200..299 rejects it with an error whose message is the body text, or the
  status text when the body text is empty; and the request rejects with such an error
  exactly when the status is outside 200..299.
\<close>

theorem request_response:
  "(res_status res = 204 \<longrightarrow> request (Inr res) = Inr JNull)
   \<and> (\<not> (200 \<le> res_status res \<and> res_status res \<le> 299) \<longrightarrow>
        request (Inr res) =
          Inl (Error (if res_text res = [] then res_statusText res else res_text res)))
   \<and> ((\<exists>msg. request (Inr res) = Inl (Error msg))
        = (\<not> (200 \<le> res_status res \<and> res_status res \<le> 299)))"
  by (auto simp add: request_def ok_def split: option.splits)

theorem request_response_witness:
  "res_status \<lparr>res_status = 204, res_statusText = ''No Content'', res_text = [],
      res_json = None\<rparr> = 204
   \<and> request (Inr \<lparr>res_status = 204, res_statusText = ''No Content'', res_text = [],
        res_json = None\<rparr>) = Inr JNull
   \<and> \<not> (200 \<le> res_status \<lparr>res_status = 404, res_statusText = ''Not Found'', res_text = [],
        res_json = None\<rparr>
        \<and> res_status \<lparr>res_status = 404, res_statusText = ''Not Found'', res_text = [],
        res_json = None\<rparr> \<le> 299)
   \<and> request (Inr \<lparr>res_status = 404, res_statusText = ''Not Found'', res_text = [],
        res_json = None\<rparr>) = Inl (Error ''Not Found'')"
  using request_response [of "\<lparr>res_status = 204, res_statusText = ''No Content'',
      res_text = [], res_json = None\<rparr>"]
    request_response [of "\<lparr>res_status = 404, res_statusText = ''Not Found'',
      res_text = [], res_json = None\<rparr>"]
  by simp

section \<open>Properties of the route guard\<close>

text \<open>
  C8: for every token and user of the session store and every requested path, the guard
  redirects to the login view, carrying the requested path, exactly when the token is
  absent (\<open>null\<close> or empty) or the role of the user is not \<open>admin\<close>; otherwise it renders
  the protected content.
\<close>

theorem RequireAdmin_guard:
  "(RequireAdmin token user p c = Navigate ''/login'' True p)
     = (token = None \<or> token = Some [] \<or> optional_prop user ''role'' \<noteq> Some (JStr ''admin''))
   \<and> (RequireAdmin token user p c = Children c)
     = (\<not> (token = None \<or> token = Some [] \<or> optional_prop user ''role'' \<noteq> Some (JStr ''admin'')))
   \<and> (optional_prop user ''role'' = Some (JStr ''admin'')) =
       (\<exists>kvs. user = JObj kvs \<and> map_of kvs ''role'' = Some (JStr ''admin''))"
  by (auto simp add: RequireAdmin_def falsy_def optional_prop_def split: option.splits json.splits)

theorem RequireAdmin_guard_witness:
  "RequireAdmin None (JObj [(''role'', JStr ''admin'')]) ''/admin'' (0::nat)
     = Navigate ''/login'' True ''/admin''
   \<and> RequireAdmin (Some ''t0k3n'') (JObj [(''role'', JStr ''viewer'')]) ''/admin'' (0::nat)
     = Navigate ''/login'' True ''/admin''
   \<and> RequireAdmin (Some ''t0k3n'') (JObj [(''role'', JStr ''admin'')]) ''/admin'' (0::nat)
     = Children 0"
  using RequireAdmin_guard [of None "JObj [(''role'', JStr ''admin'')]" "''/admin''" "0::nat"]
    RequireAdmin_guard [of "Some ''t0k3n''" "JObj [(''role'', JStr ''viewer'')]" "''/admin''" "0::nat"]
    RequireAdmin_guard [of "Some ''t0k3n''" "JObj [(''role'', JStr ''admin'')]" "''/admin''" "0::nat"]
  by (simp add: optional_prop_def)

section \<open>Properties of the day filter\<close>

lemma parse_2025_13_40:
  "map parseInt (split_on CHR ''-'' ''2025-13-40'') = [Some 2025, Some 13, Some 40]"
  by (simp add: parseInt_def is_space_def is_digit_def digit_value_def)

text \<open>Every day bucket is a calendar date: its month index is below 12.\<close>

lemma carry_days_month: "m < 12 \<Longrightarrow> getMonth (carry_days y m d) < 12"
proof (induction y m d rule: carry_days.induct)
  case (1 y m d)
  then show ?case by (subst carry_days.simps) simp
qed

lemma new_Date_month: "getMonth (new_Date y m d) < 12"
  by (simp add: new_Date_def carry_days_month)

lemma days_length: "length (days now) = 7"
  by (simp add: days_def)

lemma days_month: "i < 7 \<Longrightarrow> getMonth (days now ! i) < 12"
  by (simp add: days_def new_Date_month del: upt_Suc)

lemma on_day_unparsable: "\<not> three_numeric_components (date m) \<Longrightarrow> \<not> on_day target m"
proof -
  assume h: "\<not> three_numeric_components (date m)"
  define parts where "parts = map parseInt (split_on CHR ''-'' (date m))"
  show ?thesis
  proof (cases "length parts = 3")
    case False
    then show ?thesis by (simp add: on_day_def parts_def Let_def)
  next
    case True
    with h have "None \<in> set parts"
      by (simp add: three_numeric_components_def parts_def Let_def)
    then obtain i where i: "i < 3" "parts ! i = None"
      using True by (metis in_set_conv_nth)
    then have "i = 0 \<or> i = 1 \<or> i = 2" by arith
    with i show ?thesis
      by (auto simp add: on_day_def Let_def parts_def [symmetric])
  qed
qed

lemma on_day_month_13:
  assumes "date m = ''2025-13-40''" and month: "getMonth target < 12"
  shows "\<not> on_day target m"
proof -
  have "map parseInt (split_on CHR ''-'' (date m)) = [Some 2025, Some 13, Some 40]"
    using assms(1) parse_2025_13_40 by (simp only:)
  then show ?thesis using month by (simp add: on_day_def Let_def)
qed

text \<open>
  C3: a match whose date string does not parse into exactly three numeric components
  (another number of fields between the separators, or a field in which \<open>parseInt\<close>
  finds no number) is in none of the seven day buckets, whatever the current date and the
  collection, and the filter returns normally for each of the seven day indices. The same
  holds for the date \<open>2025-13-40\<close>, whose month no bucket has.
\<close>

theorem filtered_excludes_unparsable:
  "\<not> three_numeric_components (date m) \<or> date m = ''2025-13-40'' \<longrightarrow>
      (\<forall>i < 7. \<exists>r. filtered (days now) i effectiveMatches = Inr r \<and> m \<notin> set r)"
proof (intro impI allI)
  fix i :: nat
  assume bad: "\<not> three_numeric_components (date m) \<or> date m = ''2025-13-40''" and i: "i < 7"
  have "\<not> on_day (days now ! i) m"
    using bad on_day_unparsable on_day_month_13 days_month [OF i] by blast
  then show "\<exists>r. filtered (days now) i effectiveMatches = Inr r \<and> m \<notin> set r"
    using i by (simp add: filtered_def days_length)
qed

theorem filtered_excludes_unparsable_witness:
  "\<not> three_numeric_components ''2025-11''
   \<and> (\<exists>r. filtered (days \<lparr>getFullYear = 2025, getMonth = 10, getDate = 28\<rparr>) 3
          [\<lparr>obj_id = Some ''m1'', date = ''2025-11'', startTime = ''19:30'', teams = [],
            venue = None, streamUrl = None, status = Some ''scheduled''\<rparr>] = Inr r
        \<and> \<lparr>obj_id = Some ''m1'', date = ''2025-11'', startTime = ''19:30'', teams = [],
            venue = None, streamUrl = None, status = Some ''scheduled''\<rparr> \<notin> set r)"
proof -
  have h: "\<not> three_numeric_components ''2025-11''"
    by (simp add: three_numeric_components_def)
  have i: "(3::nat) < 7" by simp
  show ?thesis
    using h i filtered_excludes_unparsable [where
      m = "\<lparr>obj_id = Some ''m1'', date = ''2025-11'', startTime = ''19:30'', teams = [],
            venue = None, streamUrl = None, status = Some ''scheduled''\<rparr>"
      and now = "\<lparr>getFullYear = 2025, getMonth = 10, getDate = 28\<rparr>"
      and effectiveMatches = "[\<lparr>obj_id = Some ''m1'', date = ''2025-11'', startTime = ''19:30'',
            teams = [], venue = None, streamUrl = None, status = Some ''scheduled''\<rparr>]"]
    by simp
qed

text \<open>
  \<open>parseInt\<close> reads the leading digits of a component and ignores what follows them, so
  a date such as \<open>2025-12-1x\<close> has three numeric components and is listed on its day.
\<close>

lemma filtered_reads_leading_digits:
  "three_numeric_components ''2025-12-1x''
   \<and> filtered (days \<lparr>getFullYear = 2025, getMonth = 11, getDate = 1\<rparr>) 0
        [\<lparr>obj_id = Some ''m1'', date = ''2025-12-1x'', startTime = ''19:30'', teams = [],
          venue = None, streamUrl = None, status = Some ''scheduled''\<rparr>]
     = Inr [\<lparr>obj_id = Some ''m1'', date = ''2025-12-1x'', startTime = ''19:30'', teams = [],
          venue = None, streamUrl = None, status = Some ''scheduled''\<rparr>]"
  by (simp add: three_numeric_components_def filtered_def days_def new_Date_def
      carry_days.simps days_in_month_def on_day_def parseInt_def is_space_def is_digit_def
      digit_value_def)

section \<open>Properties of the set-live reconciliation\<close>

lemma filter_implies_length:
  "(\<And>x. x \<in> set xs \<Longrightarrow> P x \<Longrightarrow> Q x) \<Longrightarrow> length (filter P xs) \<le> length (filter Q xs)"
  by (induction xs) auto

lemma distinct_key_once:
  "distinct (map f xs) \<Longrightarrow> length (filter (\<lambda>x. f x = a) xs) \<le> 1"
  by (induction xs) (auto simp add: filter_empty_conv image_iff)

text \<open>After the reconciliation only entries that were replaced can be live.\<close>

lemma setLive_one_live:
  assumes "distinct (map obj_id prev)"
  shows "length (filter (\<lambda>x. status x = Some ''live'') (setLive_onDone u prev)) \<le> 1"
proof -
  have "length (filter (\<lambda>x. status x = Some ''live'') (setLive_onDone u prev))
      = length (filter ((\<lambda>x. status x = Some ''live'') \<circ>
          (\<lambda>x. if obj_id x = obj_id u then u
              else (if status x = Some ''live'' then x\<lparr>status := Some ''scheduled''\<rparr> else x))) prev)"
    by (simp add: setLive_onDone_def filter_map)
  also have "\<dots> \<le> length (filter (\<lambda>x. obj_id x = obj_id u) prev)"
    by (rule filter_implies_length) (auto split: if_splits)
  also have "\<dots> \<le> 1" using assms by (rule distinct_key_once)
  finally show ?thesis .
qed

text \<open>
  C9: the reconciliation keeps the length of the list; the entry with the identifier of
  the updated match becomes the updated match, every other entry that was \<open>live\<close>
  becomes \<open>scheduled\<close> with all its other fields as before, and every remaining entry
  stays as it was. In a list whose identifiers are unique, as the data model has them, at
  most one entry is \<open>live\<close> afterwards when the updated match is.
\<close>

theorem setLive_onDone_reconciles:
  "length (setLive_onDone u prev) = length prev
   \<and> (\<forall>i < length prev.
        (obj_id (prev ! i) = obj_id u \<longrightarrow> setLive_onDone u prev ! i = u)
      \<and> (obj_id (prev ! i) \<noteq> obj_id u \<and> status (prev ! i) = Some ''live'' \<longrightarrow>
           setLive_onDone u prev ! i = (prev ! i)\<lparr>status := Some ''scheduled''\<rparr>)
      \<and> (obj_id (prev ! i) \<noteq> obj_id u \<and> status (prev ! i) \<noteq> Some ''live'' \<longrightarrow>
           setLive_onDone u prev ! i = prev ! i)
      \<and> (obj_id (prev ! i) \<noteq> obj_id u \<longrightarrow>
           obj_id (setLive_onDone u prev ! i) = obj_id (prev ! i)
         \<and> date (setLive_onDone u prev ! i) = date (prev ! i)
         \<and> startTime (setLive_onDone u prev ! i) = startTime (prev ! i)
         \<and> teams (setLive_onDone u prev ! i) = teams (prev ! i)
         \<and> venue (setLive_onDone u prev ! i) = venue (prev ! i)
         \<and> streamUrl (setLive_onDone u prev ! i) = streamUrl (prev ! i)))
   \<and> (distinct (map obj_id prev) \<and> status u = Some ''live'' \<longrightarrow>
        length (filter (\<lambda>x. status x = Some ''live'') (setLive_onDone u prev)) \<le> 1)"
proof -
  have len: "length (setLive_onDone u prev) = length prev"
    by (simp add: setLive_onDone_def)
  have entries: "\<forall>i < length prev.
        (obj_id (prev ! i) = obj_id u \<longrightarrow> setLive_onDone u prev ! i = u)
      \<and> (obj_id (prev ! i) \<noteq> obj_id u \<and> status (prev ! i) = Some ''live'' \<longrightarrow>
           setLive_onDone u prev ! i = (prev ! i)\<lparr>status := Some ''scheduled''\<rparr>)
      \<and> (obj_id (prev ! i) \<noteq> obj_id u \<and> status (prev ! i) \<noteq> Some ''live'' \<longrightarrow>
           setLive_onDone u prev ! i = prev ! i)
      \<and> (obj_id (prev ! i) \<noteq> obj_id u \<longrightarrow>
           obj_id (setLive_onDone u prev ! i) = obj_id (prev ! i)
         \<and> date (setLive_onDone u prev ! i) = date (prev ! i)
         \<and> startTime (setLive_onDone u prev ! i) = startTime (prev ! i)
         \<and> teams (setLive_onDone u prev ! i) = teams (prev ! i)
         \<and> venue (setLive_onDone u prev ! i) = venue (prev ! i)
         \<and> streamUrl (setLive_onDone u prev ! i) = streamUrl (prev ! i))"
    by (simp add: setLive_onDone_def)
  from len entries setLive_one_live show ?thesis by blast
qed

theorem setLive_onDone_reconciles_witness:
  "distinct (map obj_id
      [\<lparr>obj_id = Some ''a'', date = ''2025-11-20'', startTime = ''19:30'', teams = [],
         venue = None, streamUrl = None, status = Some ''live''\<rparr>,
       \<lparr>obj_id = Some ''b'', date = ''2025-11-21'', startTime = ''15:00'', teams = [],
         venue = None, streamUrl = None, status = Some ''scheduled''\<rparr>])
   \<and> length (filter (\<lambda>x. status x = Some ''live'')
       (setLive_onDone
          \<lparr>obj_id = Some ''b'', date = ''2025-11-21'', startTime = ''15:00'', teams = [],
            venue = None, streamUrl = None, status = Some ''live''\<rparr>
          [\<lparr>obj_id = Some ''a'', date = ''2025-11-20'', startTime = ''19:30'', teams = [],
             venue = None, streamUrl = None, status = Some ''live''\<rparr>,
           \<lparr>obj_id = Some ''b'', date = ''2025-11-21'', startTime = ''15:00'', teams = [],
             venue = None, streamUrl = None, status = Some ''scheduled''\<rparr>])) \<le> 1"
proof -
  have d: "distinct (map obj_id
      [\<lparr>obj_id = Some ''a'', date = ''2025-11-20'', startTime = ''19:30'', teams = [],
         venue = None, streamUrl = None, status = Some ''live''\<rparr>,
       \<lparr>obj_id = Some ''b'', date = ''2025-11-21'', startTime = ''15:00'', teams = [],
         venue = None, streamUrl = None, status = Some ''scheduled''\<rparr>])"
    by simp
  have l: "status \<lparr>obj_id = Some ''b'', date = ''2025-11-21'', startTime = ''15:00'',
      teams = [], venue = None, streamUrl = None, status = Some ''live''\<rparr> = Some ''live''"
    by simp
  show ?thesis
    using d l setLive_onDone_reconciles [where
      u = "\<lparr>obj_id = Some ''b'', date = ''2025-11-21'', startTime = ''15:00'', teams = [],
            venue = None, streamUrl = None, status = Some ''live''\<rparr>"
      and prev = "[\<lparr>obj_id = Some ''a'', date = ''2025-11-20'', startTime = ''19:30'', teams = [],
             venue = None, streamUrl = None, status = Some ''live''\<rparr>,
           \<lparr>obj_id = Some ''b'', date = ''2025-11-21'', startTime = ''15:00'', teams = [],
             venue = None, streamUrl = None, status = Some ''scheduled''\<rparr>]"]
    by blast
qed

text \<open>
  The uniqueness of the identifiers is needed: where two entries carry the identifier of
  the updated match, both are replaced by it.
\<close>

lemma setLive_onDone_duplicate_ids:
  "length (filter (\<lambda>x. status x = Some ''live'')
     (setLive_onDone
        \<lparr>obj_id = Some ''a'', date = [], startTime = [], teams = [],
          venue = None, streamUrl = None, status = Some ''live''\<rparr>
        [\<lparr>obj_id = Some ''a'', date = [], startTime = [], teams = [],
           venue = None, streamUrl = None, status = None\<rparr>,
         \<lparr>obj_id = Some ''a'', date = [], startTime = [], teams = [],
           venue = None, streamUrl = None, status = None\<rparr>])) = 2"
  by (simp add: setLive_onDone_def)

section \<open>Properties of the local-storage persistence\<close>

lemma getMatches_saveMatches: "getMatches (saveMatches (Some xs)) = xs"
  by (simp add: getMatches_def getMatches_try_def saveMatches_def JSON_stringify_def JSON_parse_def)

lemma strict_equal_refl: "primitive v \<Longrightarrow> strict_equal v v"
  by (simp add: primitive_def strict_equal_def split: option.splits json.splits)

lemma get_prop_total: "m \<noteq> JNull \<Longrightarrow> \<exists>a. get_prop m k = Inr a"
  by (cases m) (simp_all add: get_prop_def)

lemma findIndex_total:
  "(\<And>x. x \<in> set xs \<Longrightarrow> \<exists>b. p x = Inr b) \<Longrightarrow>
   \<exists>i. findIndex p xs = Inr i \<and> (i = - 1 \<or> (0 \<le> i \<and> i < int (length xs)))"
proof (induction xs)
  case Nil
  then show ?case by simp
next
  case (Cons x xs)
  from Cons.prems obtain b where b: "p x = Inr b" by auto
  from Cons obtain i where i: "findIndex p xs = Inr i" "i = - 1 \<or> (0 \<le> i \<and> i < int (length xs))"
    by auto
  show ?case using b i by (cases b) auto
qed

lemma filter_js_total:
  "(\<And>x. x \<in> set xs \<Longrightarrow> \<exists>b. p x = Inr b) \<Longrightarrow>
   filter_js p xs = Inr (filter (\<lambda>x. p x = Inr True) xs)"
proof (induction xs)
  case Nil
  then show ?case by simp
next
  case (Cons x xs)
  from Cons.prems obtain b where b: "p x = Inr b" by auto
  from Cons have r: "filter_js p xs = Inr (filter (\<lambda>x. p x = Inr True) xs)"
    by auto
  show ?case using b r by (cases b) auto
qed

lemma upsertMatch_listed:
  assumes entries: "JNull \<notin> set (getMatches store)"
    and obj: "mtch = JObj kvs" and prim: "primitive (map_of kvs ''id'')"
  shows "\<exists>store'. upsertMatch mtch store = Inr store'
           \<and> (\<exists>e \<in> set (getMatches store'). has_id e (map_of kvs ''id''))"
proof -
  define list where "list = getMatches store"
  have "\<exists>b. same_id mtch x = Inr b" if "x \<in> set list" for x
  proof -
    from that entries have "x \<noteq> JNull" by (auto simp add: list_def)
    then obtain a where "get_prop x ''id'' = Inr a" using get_prop_total by blast
    then show ?thesis using obj by (simp add: same_id_def get_prop_def)
  qed
  then obtain idx where idx: "findIndex (same_id mtch) list = Inr idx"
      "idx = - 1 \<or> (0 \<le> idx \<and> idx < int (length list))"
    using findIndex_total [of list "same_id mtch"] by blast
  define list' where "list' = (if idx \<ge> 0 then list[nat idx := mtch] else list @ [mtch])"
  have mem: "mtch \<in> set list'"
    using idx(2) by (auto simp add: list'_def intro: set_update_memI)
  have up: "upsertMatch mtch store = Inr (saveMatches (Some list'))"
    using idx(1) by (simp add: upsertMatch_def list_def [symmetric] list'_def Let_def)
  have "has_id mtch (map_of kvs ''id'')"
    using obj strict_equal_refl [OF prim] by (simp add: has_id_def get_prop_def)
  with mem up show ?thesis by (auto simp add: getMatches_saveMatches)
qed

lemma deleteMatch_unlisted:
  assumes entries: "JNull \<notin> set (getMatches store)"
  shows "\<exists>store'. deleteMatch mid store = Inr store'
           \<and> (\<forall>e \<in> set (getMatches store'). \<not> has_id e mid)"
proof -
  define list where "list = getMatches store"
  have "\<exists>b. other_id mid x = Inr b" if "x \<in> set list" for x
  proof -
    from that entries have "x \<noteq> JNull" by (auto simp add: list_def)
    then obtain a where "get_prop x ''id'' = Inr a" using get_prop_total by blast
    then show ?thesis by (simp add: other_id_def)
  qed
  then have "filter_js (other_id mid) list = Inr (filter (\<lambda>x. other_id mid x = Inr True) list)"
    by (rule filter_js_total)
  then have del: "deleteMatch mid store
      = Inr (saveMatches (Some (filter (\<lambda>x. other_id mid x = Inr True) list)))"
    by (simp add: deleteMatch_def list_def [symmetric])
  have "\<not> has_id e mid" if "other_id mid e = Inr True" for e
    using that by (auto simp add: other_id_def has_id_def split: sum.splits)
  with del show ?thesis by (auto simp add: getMatches_saveMatches)
qed


text \<open>
  C5: over the local-storage path, for every stored state whose list entries are objects
  (none is \<open>null\<close>) and every match object whose identifier is a primitive value:
  \<open>upsertMatch\<close> returns, and \<open>getMatches\<close> then lists an entry with the identifier of
  the match; \<open>deleteMatch\<close> returns, and \<open>getMatches\<close> then lists no entry with the
  deleted identifier.
\<close>

theorem storage_round_trip:
  "JNull \<notin> set (getMatches store) \<longrightarrow>
     (mtch = JObj kvs \<and> primitive (map_of kvs ''id'') \<longrightarrow>
        (\<exists>store'. upsertMatch mtch store = Inr store'
           \<and> (\<exists>e \<in> set (getMatches store'). has_id e (map_of kvs ''id''))))
   \<and> (\<exists>store'. deleteMatch mid store = Inr store'
           \<and> (\<forall>e \<in> set (getMatches store'). \<not> has_id e mid))"
  using upsertMatch_listed deleteMatch_unlisted by blast

theorem storage_round_trip_witness:
  "JNull \<notin> set (getMatches (Some (Serialized (JArr [JObj [(''id'', JStr ''b'')]]))))
   \<and> primitive (map_of [(''id'', JStr ''a'')] ''id'')
   \<and> (\<exists>store' e. upsertMatch (JObj [(''id'', JStr ''a'')])
          (Some (Serialized (JArr [JObj [(''id'', JStr ''b'')]]))) = Inr store'
        \<and> e \<in> set (getMatches store') \<and> has_id e (Some (JStr ''a'')))
   \<and> (\<exists>store'. deleteMatch (Some (JStr ''b''))
          (Some (Serialized (JArr [JObj [(''id'', JStr ''b'')]]))) = Inr store'
        \<and> JObj [(''id'', JStr ''b'')] \<notin> set (getMatches store'))"
proof -
  have h1: "JNull \<notin> set (getMatches (Some (Serialized (JArr [JObj [(''id'', JStr ''b'')]]))))"
    by (simp add: getMatches_def getMatches_try_def JSON_parse_def)
  have h2: "primitive (map_of [(''id'', JStr ''a'')] ''id'')"
    by (simp add: primitive_def)
  have h3: "map_of [(''id'', JStr ''a'')] ''id'' = Some (JStr ''a'')"
    by simp
  have h4: "has_id (JObj [(''id'', JStr ''b'')]) (Some (JStr ''b''))"
    by (simp add: has_id_def get_prop_def strict_equal_def)
  show ?thesis
    using h1 h2 h4 storage_round_trip [where
      store = "Some (Serialized (JArr [JObj [(''id'', JStr ''b'')]]))"
      and mtch = "JObj [(''id'', JStr ''a'')]" and kvs = "[(''id'', JStr ''a'')]"
      and mid = "Some (JStr ''b'')"]
    unfolding h3 by blast
qed

text \<open>
  Where the stored list has a \<open>null\<close> entry, the callback of \<open>upsertMatch\<close> reads
  \<open>id\<close> from \<open>null\<close> and the call throws before anything is saved.
\<close>

lemma upsertMatch_null_entry:
  "upsertMatch (JObj [(''id'', JStr ''a'')]) (Some (Serialized (JArr [JNull]))) = Inl TypeError"
  by (simp add: upsertMatch_def getMatches_def getMatches_try_def JSON_parse_def same_id_def
      get_prop_def)

text \<open>
  C7: whatever the storage holds under the key, \<open>getMatches\<close> returns a list: every
  exception of its body is caught and gives the empty list, and the result is empty when
  the item is absent, when it is not JSON, and when it is JSON of another shape than an
  array; a stored array is returned as it is.
\<close>

theorem getMatches_fallback:
  "(\<forall>e. getMatches_try store = Inl e \<longrightarrow> getMatches store = [])
   \<and> (store = None \<longrightarrow> getMatches store = [])
   \<and> (\<forall>s. store = Some (Unparsable s) \<longrightarrow> getMatches store = [])
   \<and> (\<forall>v. store = Some (Serialized v) \<and> (\<forall>xs. v \<noteq> JArr xs) \<longrightarrow> getMatches store = [])
   \<and> (\<forall>xs. store = Some (Serialized (JArr xs)) \<longrightarrow> getMatches store = xs)"
  by (auto simp add: getMatches_def getMatches_try_def JSON_parse_def split: json.splits)

theorem getMatches_fallback_witness:
  "getMatches_try (Some (Unparsable ''{oops'')) = Inl SyntaxError
   \<and> getMatches (Some (Unparsable ''{oops'')) = []
   \<and> getMatches None = []
   \<and> getMatches (Some (Serialized (JObj [(''id'', JStr ''a'')]))) = []
   \<and> getMatches (Some (Serialized (JArr [JStr ''a'']))) = [JStr ''a'']"
proof -
  have t: "getMatches_try (Some (Unparsable ''{oops'')) = Inl SyntaxError"
    by (simp add: getMatches_try_def JSON_parse_def)
  show ?thesis
    using t getMatches_fallback [of "Some (Unparsable ''{oops'')"]
      getMatches_fallback [of None]
      getMatches_fallback [of "Some (Serialized (JObj [(''id'', JStr ''a'')]))"]
      getMatches_fallback [of "Some (Serialized (JArr [JStr ''a'']))"]
    by simp
qed

end
